theory Spec2Isabelle
  imports Complex_Main "HOL-Library.Word"
begin

section \<open>Python values, exceptions and byte strings\<close>

text \<open>
  The binding targets Python 3 only (first line of \<^verbatim>\<open>marquise.py\<close>). A Python
  \<^verbatim>\<open>str\<close> is a sequence of code points and \<^verbatim>\<open>len\<close> counts code points; a
  \<^verbatim>\<open>bytes\<close> object and the memory behind a \<^verbatim>\<open>char *\<close> are sequences of bytes.
\<close>

type_synonym byte = "8 word"
type_synonym uint64 = "64 word"
type_synonym pystr = "nat list"

datatype pyobj = PyNone | PyInt int | PyStr pystr

text \<open>
  Exceptions are values: one constructor for each exception class that the binding
  raises or lets through, carrying the message of the raise site.
\<close>

datatype py_exception =
    ValueError message
  | RuntimeError message
  | TypeError message
  | OverflowError message
  | UnicodeEncodeError
  | UnicodeDecodeError
and message =
    Invalid_namespace pystr
  | Init_failed int
  | Closed_handle
  | Send_simple_failed int
  | Send_extended_failed int
  | None_key
  | None_value
  | Key_not_cstring py_exception
  | Value_not_cstring py_exception
  | New_source_failed int
  | Update_source_failed int
  | Cannot_be_encoded
  | Integer_required
  | Does_not_fit

subsection \<open>The string helpers of \<^verbatim>\<open>oslo_strutils\<close>\<close>

text \<open>
  Modelled from the spec: the module \<^verbatim>\<open>oslo_strutils\<close>, from which
  \<^verbatim>\<open>marquise_cffi.py\<close> imports \<^verbatim>\<open>safe_encode\<close> and \<^verbatim>\<open>safe_decode\<close>, is
  not among the sources. The docstrings of \<^verbatim>\<open>cstring\<close>, \<^verbatim>\<open>len_cstring\<close> and
  \<^verbatim>\<open>cprint\<close> say what they are used for: the UTF-8 bytes of a Python string, and
  back. The encoding is the strict UTF-8 encoding of a \<^verbatim>\<open>str\<close> (a lone surrogate
  has none) and a \<^verbatim>\<open>TypeError\<close> for an object that is not a string.
\<close>

definition is_scalar :: "nat \<Rightarrow> bool" where
  "is_scalar c = (c < 0xD800 \<or> (0xE000 \<le> c \<and> c < 0x110000))"

definition utf8_char :: "nat \<Rightarrow> byte list" where
  "utf8_char c =
     (if c < 0x80 then [of_nat c]
      else if c < 0x800 then
        [of_nat (0xC0 + c div 0x40), of_nat (0x80 + c mod 0x40)]
      else if c < 0x10000 then
        [of_nat (0xE0 + c div 0x1000), of_nat (0x80 + c div 0x40 mod 0x40),
         of_nat (0x80 + c mod 0x40)]
      else
        [of_nat (0xF0 + c div 0x40000), of_nat (0x80 + c div 0x1000 mod 0x40),
         of_nat (0x80 + c div 0x40 mod 0x40), of_nat (0x80 + c mod 0x40)])"

fun encode_utf8 :: "pystr \<Rightarrow> py_exception + byte list" where
  "encode_utf8 [] = Inr []"
| "encode_utf8 (c # cs) =
     (if is_scalar c then
        (case encode_utf8 cs of Inl e \<Rightarrow> Inl e | Inr bs \<Rightarrow> Inr (utf8_char c @ bs))
      else Inl UnicodeEncodeError)"

text \<open>
  Modelled from the spec: \<^verbatim>\<open>safe_encode\<close> of the absent \<^verbatim>\<open>oslo_strutils\<close>: the
  UTF-8 bytes of a string, \<^verbatim>\<open>TypeError\<close> for an object that is not a string.
\<close>

fun safe_encode :: "pyobj \<Rightarrow> py_exception + byte list" where
  "safe_encode (PyStr s) = encode_utf8 s"
| "safe_encode _ = Inl (TypeError Cannot_be_encoded)"

text \<open>
  Modelled from the spec: \<^verbatim>\<open>safe_decode\<close> of the absent \<^verbatim>\<open>oslo_strutils\<close>, used by
  \<^verbatim>\<open>cprint\<close> to "return a UTF-8 Python string for an FFI bytestring": strict UTF-8
  decoding, which refuses stray continuation bytes, overlong forms, surrogates and code
  points above U+10FFFF.
\<close>

fun cons_ok :: "'a \<Rightarrow> py_exception + 'a list \<Rightarrow> py_exception + 'a list" where
  "cons_ok x (Inl e) = Inl e"
| "cons_ok x (Inr xs) = Inr (x # xs)"

definition cont :: "byte \<Rightarrow> bool" where
  "cont b = (0x80 \<le> b \<and> b < 0xC0)"

definition cp2 :: "byte \<Rightarrow> byte \<Rightarrow> nat" where
  "cp2 b b1 = (unat b - 0xC0) * 0x40 + (unat b1 - 0x80)"

definition cp3 :: "byte \<Rightarrow> byte \<Rightarrow> byte \<Rightarrow> nat" where
  "cp3 b b1 b2 = (unat b - 0xE0) * 0x1000 + (unat b1 - 0x80) * 0x40 + (unat b2 - 0x80)"

definition cp4 :: "byte \<Rightarrow> byte \<Rightarrow> byte \<Rightarrow> byte \<Rightarrow> nat" where
  "cp4 b b1 b2 b3 =
     (unat b - 0xF0) * 0x40000 + (unat b1 - 0x80) * 0x1000 + (unat b2 - 0x80) * 0x40
       + (unat b3 - 0x80)"

text \<open>
  Modelled from the spec: \<^verbatim>\<open>safe_decode\<close> of the absent \<^verbatim>\<open>oslo_strutils\<close>, on the
  bytes \<^verbatim>\<open>FFI.string\<close> returns.
\<close>

fun safe_decode :: "byte list \<Rightarrow> py_exception + pystr" where
  "safe_decode [] = Inr []"
| "safe_decode (b # bs) =
     (if b < 0x80 then cons_ok (unat b) (safe_decode bs)
      else if 0xC2 \<le> b \<and> b < 0xE0 then
        (case bs of
           b1 # r \<Rightarrow>
             if cont b1 then cons_ok (cp2 b b1) (safe_decode r) else Inl UnicodeDecodeError
         | _ \<Rightarrow> Inl UnicodeDecodeError)
      else if 0xE0 \<le> b \<and> b < 0xF0 then
        (case bs of
           b1 # b2 # r \<Rightarrow>
             if cont b1 \<and> cont b2 \<and> 0x800 \<le> cp3 b b1 b2 \<and> is_scalar (cp3 b b1 b2)
             then cons_ok (cp3 b b1 b2) (safe_decode r) else Inl UnicodeDecodeError
         | _ \<Rightarrow> Inl UnicodeDecodeError)
      else if 0xF0 \<le> b \<and> b < 0xF5 then
        (case bs of
           b1 # b2 # b3 # r \<Rightarrow>
             if cont b1 \<and> cont b2 \<and> cont b3 \<and> 0x10000 \<le> cp4 b b1 b2 b3
                \<and> is_scalar (cp4 b b1 b2 b3)
             then cons_ok (cp4 b b1 b2 b3) (safe_decode r) else Inl UnicodeDecodeError
         | _ \<Rightarrow> Inl UnicodeDecodeError)
      else Inl UnicodeDecodeError)"

subsection \<open>\<^verbatim>\<open>marquise_cffi.py\<close>\<close>

text \<open>
  \<^verbatim>\<open>FFI.new('char[]', b)\<close> allocates \<^verbatim>\<open>len(b) + 1\<close> bytes: the bytes of
  \<^verbatim>\<open>b\<close> and a terminating NUL.
\<close>

definition FFI_new_chars :: "byte list \<Rightarrow> byte list" where
  "FFI_new_chars bs = bs @ [0]"

definition cstring :: "pyobj \<Rightarrow> py_exception + byte list" where
  "cstring new_string =
     (case safe_encode new_string of Inl e \<Rightarrow> Inl e | Inr bs \<Rightarrow> Inr (FFI_new_chars bs))"

definition len_cstring :: "pyobj \<Rightarrow> py_exception + nat" where
  "len_cstring new_string =
     (case safe_encode new_string of Inl e \<Rightarrow> Inl e | Inr bs \<Rightarrow> Inr (length bs))"

text \<open>\<^verbatim>\<open>FFI.string\<close> reads the memory behind a \<^verbatim>\<open>char *\<close> up to the first NUL.\<close>

definition FFI_string :: "byte list \<Rightarrow> byte list" where
  "FFI_string buf = takeWhile (\<lambda>b. b \<noteq> 0) buf"

definition cprint :: "byte list \<Rightarrow> py_exception + pystr" where
  "cprint ffi_string = safe_decode (FFI_string ffi_string)"

text \<open>
  \<^verbatim>\<open>FFI.cast("uint64_t", n)\<close> of a Python integer keeps its low 64 bits;
  \<^verbatim>\<open>size_t\<close> has 64 bits on the platforms the module is built for.
\<close>

definition FFI_cast_uint64 :: "int \<Rightarrow> uint64" where
  "FFI_cast_uint64 n = word_of_int n"

definition FFI_cast_size_t :: "nat \<Rightarrow> uint64" where
  "FFI_cast_size_t n = of_nat n"

text \<open>
  A Python object passed where the C function takes a \<^verbatim>\<open>uint64_t\<close> is converted by
  CFFI without a cast: an integer in range is passed on, an integer out of range is an
  \<^verbatim>\<open>OverflowError\<close>, and an object that is not an integer a \<^verbatim>\<open>TypeError\<close>.
\<close>

fun to_c_uint64 :: "pyobj \<Rightarrow> py_exception + uint64" where
  "to_c_uint64 (PyInt i) =
     (if 0 \<le> i \<and> i < 2 ^ 64 then Inr (word_of_int i) else Inl (OverflowError Does_not_fit))"
| "to_c_uint64 _ = Inl (TypeError Integer_required)"


section \<open>The native library\<close>

text \<open>
  \<^verbatim>\<open>C_LIBMARQUISE\<close> is the compiled libmarquise, an external library. Its functions
  are parameters of the model. A native context is the struct the binding reads the two
  spool paths from; each path is the memory behind a \<^verbatim>\<open>char *\<close>.
\<close>

record native_ctx =
  ctx_spool_path_points :: "byte list"
  ctx_spool_path_contents :: "byte list"

type_synonym source_ptr = nat

datatype native_call =
    Call_init "byte list"
  | Call_shutdown native_ctx
  | Call_send_simple native_ctx uint64 uint64 uint64
  | Call_send_extended native_ctx uint64 uint64 "byte list" uint64
  | Call_new_source "byte list list" "byte list list" nat
  | Call_update_source native_ctx uint64 source_ptr
  | Call_free_source source_ptr

text \<open>
  What a native function answers may depend on every native call made before it (the
  library's own state, the disk), so each function takes that history. Beside its result
  it leaves a value in \<^verbatim>\<open>errno\<close>, which CFFI saves in \<^verbatim>\<open>FFI.errno\<close>.
  \<open>marquise_hash_identifier\<close> receives the buffer and the length it is called with.
  \<open>float_mul\<close> is the product of two Python floats (the rounding is the platform's).
\<close>

record extern =
  init_resources :: "native_call list \<Rightarrow> byte list \<Rightarrow> int option"
  spool_base :: "byte list"
  marquise_shutdown :: "native_call list \<Rightarrow> native_ctx \<Rightarrow> int \<times> int"
  marquise_hash_identifier :: "byte list \<Rightarrow> nat \<Rightarrow> uint64"
  marquise_send_simple ::
    "native_call list \<Rightarrow> native_ctx \<Rightarrow> uint64 \<Rightarrow> uint64 \<Rightarrow> uint64 \<Rightarrow> int \<times> int"
  marquise_send_extended ::
    "native_call list \<Rightarrow> native_ctx \<Rightarrow> uint64 \<Rightarrow> uint64 \<Rightarrow> byte list \<Rightarrow> uint64 \<Rightarrow> int \<times> int"
  marquise_new_source ::
    "native_call list \<Rightarrow> byte list list \<Rightarrow> byte list list \<Rightarrow> nat \<Rightarrow> source_ptr option \<times> int"
  marquise_update_source ::
    "native_call list \<Rightarrow> native_ctx \<Rightarrow> uint64 \<Rightarrow> source_ptr \<Rightarrow> int \<times> int"
  marquise_free_source :: "native_call list \<Rightarrow> source_ptr \<Rightarrow> int"
  float_mul :: "real \<Rightarrow> real \<Rightarrow> real"

section \<open>\<^verbatim>\<open>marquise.py\<close>: the class \<^verbatim>\<open>Marquise\<close>\<close>

text \<open>
  The world outside the object: the native calls made so far (oldest first),
  \<^verbatim>\<open>FFI.errno\<close>, what \<^verbatim>\<open>print\<close> has written, and the reading of the clock
  (\<^verbatim>\<open>time.time()\<close>, a float). The spool files are touched by native calls only.
\<close>

datatype debug_msg =
    Already_closed
  | Shutting_down pystr pystr
  | Supplied_address pyobj
  | Send_simple_returned int
  | Sending_extended pystr uint64
  | Send_extended_returned int
  | Update_source_returned int

record world =
  calls :: "native_call list"
  ffi_errno :: int
  stdout :: "debug_msg list"
  time_time :: real

text \<open>The attributes of a \<^verbatim>\<open>Marquise\<close> instance.\<close>

record marquise =
  debug_enabled :: bool
  namespace_c :: "byte list"
  marquise_ctx :: "native_ctx option"
  spool_path_points :: pystr
  spool_path_contents :: pystr

text \<open>A native call is entered in the history and leaves its \<^verbatim>\<open>errno\<close> behind.\<close>

definition native :: "native_call \<Rightarrow> int \<Rightarrow> world \<Rightarrow> world" where
  "native c e w = w\<lparr>calls := calls w @ [c], ffi_errno := e\<rparr>"

definition debug :: "marquise \<Rightarrow> debug_msg \<Rightarrow> world \<Rightarrow> world" where
  "debug self msg w = (if debug_enabled self then w\<lparr>stdout := stdout w @ [msg]\<rparr> else w)"

subsection \<open>Opening a context\<close>

text \<open>\<^verbatim>\<open>errno.EINVAL\<close>.\<close>

definition EINVAL :: int where
  "EINVAL = 22"

text \<open>
  Modelled from the spec: the namespace invariant of spec 3 and 6, \<^verbatim>\<open>^[a-z0-9]+$\<close>, on
  the bytes of the C string that the absent \<^verbatim>\<open>marquise_init\<close> is given.
\<close>

definition namespace_char :: "byte \<Rightarrow> bool" where
  "namespace_char b = ((0x61 \<le> b \<and> b \<le> 0x7A) \<or> (0x30 \<le> b \<and> b \<le> 0x39))"

definition valid_namespace :: "byte list \<Rightarrow> bool" where
  "valid_namespace ns = (ns \<noteq> [] \<and> list_all namespace_char ns)"

text \<open>The pattern \<^verbatim>\<open>[a-z0-9]+\<close> on a Python string, as the docstring states it.\<close>

definition namespace_cp :: "nat \<Rightarrow> bool" where
  "namespace_cp c = ((0x61 \<le> c \<and> c \<le> 0x7A) \<or> (0x30 \<le> c \<and> c \<le> 0x39))"

definition valid_namespace_str :: "pystr \<Rightarrow> bool" where
  "valid_namespace_str ns = (ns \<noteq> [] \<and> list_all namespace_cp ns)"

text \<open>
  Modelled from the spec: the two streams of spec 2 and 6 and the derivation of a spool
  path from the namespace, "one path per stream type" under "a well-known base
  directory" (\<^verbatim>\<open>build_spool_path\<close> of libmarquise is not among the sources, and the
  spec fixes no path format: this one is the model's).
\<close>

datatype stream = Points | Contents

fun stream_name :: "stream \<Rightarrow> byte list" where
  "stream_name Points = map of_char ''points''"
| "stream_name Contents = map of_char ''contents''"

definition build_spool_path :: "byte list \<Rightarrow> byte list \<Rightarrow> stream \<Rightarrow> byte list" where
  "build_spool_path base ns s = base @ [0x2F] @ ns @ [0x2F] @ stream_name s"

text \<open>
  Modelled from the spec: \<^verbatim>\<open>marquise_init\<close> belongs to libmarquise, which is not
  among the sources. The spec (4.2, 6 and 8) has it validate the namespace against
  \<^verbatim>\<open>[a-z0-9]+\<close> before touching the filesystem and answer NULL with \<^verbatim>\<open>errno\<close>
  \<^verbatim>\<open>EINVAL\<close> for bad input; derive one deterministic spool path for each stream
  (points, contents) from the namespace, under a well-known base directory; and fail with
  a resource error otherwise (the binding's own message names \<^verbatim>\<open>build_spool_path()\<close>
  and \<^verbatim>\<open>malloc\<close>). The function is called with a \<^verbatim>\<open>char *\<close> only, so the
  namespace it sees is the C string in the buffer. \<open>init_resources\<close> says whether the
  resources are to be had (\<open>Some\<close> the \<^verbatim>\<open>errno\<close> of the failure), \<open>spool_base\<close> is the
  base directory; the spec fixes no path format, the one of \<open>build_spool_path\<close> is the
  model's.
\<close>

definition marquise_init ::
    "extern \<Rightarrow> native_call list \<Rightarrow> int \<Rightarrow> byte list \<Rightarrow> native_ctx option \<times> int" where
  "marquise_init lib hist errno buf =
     (let ns = FFI_string buf in
      if \<not> valid_namespace ns then (None, EINVAL)
      else
        (case init_resources lib hist ns of
           Some e \<Rightarrow> (None, e)
         | None \<Rightarrow>
             (Some \<lparr>ctx_spool_path_points =
                      FFI_new_chars (build_spool_path (spool_base lib) ns Points),
                    ctx_spool_path_contents =
                      FFI_new_chars (build_spool_path (spool_base lib) ns Contents)\<rparr>,
              errno)))"

text \<open>\<^verbatim>\<open>Marquise.__init__\<close>: the new instance, or the exception raised.\<close>

definition Marquise_init ::
    "extern \<Rightarrow> pystr \<Rightarrow> bool \<Rightarrow> world \<Rightarrow> (py_exception + marquise) \<times> world" where
  "Marquise_init lib namespace dbg w =
     (case cstring (PyStr namespace) of
        Inl e \<Rightarrow> (Inl e, w)
      | Inr ns_c \<Rightarrow>
          (let (ctx, e) = marquise_init lib (calls w) (ffi_errno w) ns_c;
               w1 = native (Call_init ns_c) e w
           in case ctx of
                None \<Rightarrow>
                  if ffi_errno w1 = EINVAL
                  then (Inl (ValueError (Invalid_namespace namespace)), w1)
                  else (Inl (RuntimeError (Init_failed (ffi_errno w1))), w1)
              | Some c \<Rightarrow>
                  (case cprint (ctx_spool_path_points c) of
                     Inl ex \<Rightarrow> (Inl ex, w1)
                   | Inr pp \<Rightarrow>
                       (case cprint (ctx_spool_path_contents c) of
                          Inl ex \<Rightarrow> (Inl ex, w1)
                        | Inr pc \<Rightarrow>
                            (Inr \<lparr>debug_enabled = dbg, namespace_c = ns_c,
                                  marquise_ctx = Some c, spool_path_points = pp,
                                  spool_path_contents = pc\<rparr>, w1)))))"

subsection \<open>Closing\<close>

definition close ::
    "extern \<Rightarrow> marquise \<Rightarrow> world \<Rightarrow> (py_exception + unit) \<times> marquise \<times> world" where
  "close lib self w =
     (case marquise_ctx self of
        None \<Rightarrow> (Inr (), self, debug self Already_closed w)
      | Some c \<Rightarrow>
          (let w1 = debug self
                 (Shutting_down (spool_path_points self) (spool_path_contents self)) w;
               w2 = native (Call_shutdown c) (snd (marquise_shutdown lib (calls w1) c)) w1
           in (Inr (), self\<lparr>marquise_ctx := None\<rparr>, w2)))"

subsection \<open>Hashing and the clock\<close>

definition hash_identifier :: "extern \<Rightarrow> pystr \<Rightarrow> py_exception + uint64" where
  "hash_identifier lib identifier =
     (case cstring (PyStr identifier) of
        Inl e \<Rightarrow> Inl e
      | Inr buf \<Rightarrow> Inr (marquise_hash_identifier lib buf (length identifier)))"

text \<open>\<^verbatim>\<open>int(x)\<close> of a float truncates towards zero.\<close>

definition py_int :: "real \<Rightarrow> int" where
  "py_int x = (if 0 \<le> x then \<lfloor>x\<rfloor> else \<lceil>x\<rceil>)"

definition current_timestamp :: "extern \<Rightarrow> world \<Rightarrow> int" where
  "current_timestamp lib w = py_int (float_mul lib (time_time w) 1000000000)"

subsection \<open>Sending datapoints\<close>

text \<open>
  The arguments have the types the docstrings give them: \<^verbatim>\<open>address\<close> and
  \<^verbatim>\<open>value\<close> integers, \<^verbatim>\<open>timestamp\<close> an integer or \<^verbatim>\<open>None\<close>, the extended
  \<^verbatim>\<open>value\<close> a string.
\<close>

definition send_simple ::
    "extern \<Rightarrow> int \<Rightarrow> int option \<Rightarrow> int \<Rightarrow> marquise \<Rightarrow> world
      \<Rightarrow> (py_exception + bool) \<times> marquise \<times> world" where
  "send_simple lib address timestamp val self w =
     (case marquise_ctx self of
        None \<Rightarrow> (Inl (ValueError Closed_handle), self, w)
      | Some c \<Rightarrow>
          (let w1 = debug self (Supplied_address (PyInt address)) w;
               timestamp1 =
                 (case timestamp of None \<Rightarrow> current_timestamp lib w1 | Some t \<Rightarrow> t);
               c_address = FFI_cast_uint64 address;
               c_timestamp = FFI_cast_uint64 timestamp1;
               c_value = FFI_cast_uint64 val;
               (success, e) =
                 marquise_send_simple lib (calls w1) c c_address c_timestamp c_value;
               w2 = native (Call_send_simple c c_address c_timestamp c_value) e w1;
               w3 = debug self (Send_simple_returned success) w2
           in if success \<noteq> 0
              then (Inl (RuntimeError (Send_simple_failed (ffi_errno w3))), self, w3)
              else (Inr True, self, w3)))"

definition send_extended ::
    "extern \<Rightarrow> int \<Rightarrow> int option \<Rightarrow> pystr \<Rightarrow> marquise \<Rightarrow> world
      \<Rightarrow> (py_exception + bool) \<times> marquise \<times> world" where
  "send_extended lib address timestamp val self w =
     (case marquise_ctx self of
        None \<Rightarrow> (Inl (ValueError Closed_handle), self, w)
      | Some c \<Rightarrow>
          (let w1 = debug self (Supplied_address (PyInt address)) w;
               timestamp1 =
                 (case timestamp of None \<Rightarrow> current_timestamp lib w1 | Some t \<Rightarrow> t);
               c_address = FFI_cast_uint64 address;
               c_timestamp = FFI_cast_uint64 timestamp1
           in case cstring (PyStr val) of
                Inl ex \<Rightarrow> (Inl ex, self, w1)
              | Inr c_value \<Rightarrow>
                  (case len_cstring (PyStr val) of
                     Inl ex \<Rightarrow> (Inl ex, self, w1)
                   | Inr n \<Rightarrow>
                       (let c_length = FFI_cast_size_t n;
                            w2 = debug self (Sending_extended val c_length) w1;
                            (success, e) =
                              marquise_send_extended lib (calls w2) c c_address c_timestamp
                                c_value c_length;
                            w3 = native
                              (Call_send_extended c c_address c_timestamp c_value c_length)
                              e w2;
                            w4 = debug self (Send_extended_returned success) w3
                        in if success \<noteq> 0
                           then (Inl (RuntimeError (Send_extended_failed (ffi_errno w4))),
                                 self, w4)
                           else (Inr True, self, w4)))))"

subsection \<open>Source dictionaries\<close>

text \<open>
  \<^verbatim>\<open>metadata_dict\<close> is a Python dict: its items in the dict's order, the keys
  distinct. \<open>cstrings\<close> is the list comprehension \<^verbatim>\<open>[ cstring(x) for x in ... ]\<close>,
  which stops at the first exception.
\<close>

fun cstrings :: "pyobj list \<Rightarrow> py_exception + byte list list" where
  "cstrings [] = Inr []"
| "cstrings (x # xs) =
     (case cstring x of Inl e \<Rightarrow> Inl e | Inr b \<Rightarrow> cons_ok b (cstrings xs))"

definition free_source :: "extern \<Rightarrow> source_ptr \<Rightarrow> world \<Rightarrow> world" where
  "free_source lib sd w = native (Call_free_source sd) (marquise_free_source lib (calls w) sd) w"

definition update_source ::
    "extern \<Rightarrow> pyobj \<Rightarrow> (pyobj \<times> pyobj) list \<Rightarrow> marquise \<Rightarrow> world
      \<Rightarrow> (py_exception + bool) \<times> marquise \<times> world" where
  "update_source lib address metadata_dict self w =
     (case marquise_ctx self of
        None \<Rightarrow> (Inl (ValueError Closed_handle), self, w)
      | Some c \<Rightarrow>
          (let w1 = debug self (Supplied_address address) w in
           if list_ex (\<lambda>x. x = PyNone) (map fst metadata_dict)
           then (Inl (TypeError None_key), self, w1)
           else if list_ex (\<lambda>x. x = PyNone) (map snd metadata_dict)
           then (Inl (TypeError None_value), self, w1)
           else
             (case cstrings (map fst metadata_dict) of
                Inl e \<Rightarrow> (Inl (TypeError (Key_not_cstring e)), self, w1)
              | Inr c_fields \<Rightarrow>
                  (case cstrings (map snd metadata_dict) of
                     Inl e \<Rightarrow> (Inl (TypeError (Value_not_cstring e)), self, w1)
                   | Inr c_values \<Rightarrow>
                       (let (source_dict, e) =
                              marquise_new_source lib (calls w1) c_fields c_values
                                (length metadata_dict);
                            w2 = native
                              (Call_new_source c_fields c_values (length metadata_dict)) e w1
                        in case source_dict of
                             None \<Rightarrow>
                               (Inl (ValueError (New_source_failed (ffi_errno w2))), self, w2)
                           | Some sd \<Rightarrow>
                               (case to_c_uint64 address of
                                  Inl (TypeError m) \<Rightarrow>
                                    (Inl (TypeError m), self, free_source lib sd w2)
                                | Inl ex \<Rightarrow> (Inl ex, self, w2)
                                | Inr c_address \<Rightarrow>
                                    (let (success, e1) =
                                           marquise_update_source lib (calls w2) c c_address sd;
                                         w3 = native (Call_update_source c c_address sd) e1 w2;
                                         w4 = debug self (Update_source_returned success) w3
                                     in if success \<noteq> 0
                                        then
                                          (let w5 = free_source lib sd w4
                                           in (Inl (RuntimeError
                                                 (Update_source_failed (ffi_errno w5))),
                                               self, w5))
                                        else (Inr True, self, free_source lib sd w4))))))))"

section \<open>Runs used for concrete evaluation\<close>

text \<open>
  A library in which every call succeeds, one whose \<^verbatim>\<open>marquise_init\<close> finds no
  memory (\<^verbatim>\<open>ENOMEM\<close> is 12), a fresh world and an open context.
\<close>

definition lib_ok :: extern where
  "lib_ok =
     \<lparr>init_resources = (\<lambda>hist ns. None),
      spool_base = map of_char ''/spool'',
      marquise_shutdown = (\<lambda>hist c. (0, 0)),
      marquise_hash_identifier = (\<lambda>buf n. of_nat (length (take n buf))),
      marquise_send_simple = (\<lambda>hist c a t v. (0, 0)),
      marquise_send_extended = (\<lambda>hist c a t v n. (0, 0)),
      marquise_new_source = (\<lambda>hist fs vs n. (Some 1, 0)),
      marquise_update_source = (\<lambda>hist c a sd. (0, 0)),
      marquise_free_source = (\<lambda>hist sd. 0),
      float_mul = (\<lambda>x y. x * y)\<rparr>"

definition lib_no_memory :: extern where
  "lib_no_memory = lib_ok\<lparr>init_resources := (\<lambda>hist ns. Some 12)\<rparr>"

definition world0 :: world where
  "world0 = \<lparr>calls = [], ffi_errno = 0, stdout = [], time_time = 3 / 2\<rparr>"

definition ctx0 :: native_ctx where
  "ctx0 = \<lparr>ctx_spool_path_points = map of_char ''/spool/ab/points'' @ [0],
           ctx_spool_path_contents = map of_char ''/spool/ab/contents'' @ [0]\<rparr>"

definition self0 :: marquise where
  "self0 =
     \<lparr>debug_enabled = True, namespace_c = map of_char ''ab'' @ [0], marquise_ctx = Some ctx0,
      spool_path_points = map of_char ''/spool/ab/points'',
      spool_path_contents = map of_char ''/spool/ab/contents''\<rparr>"

text \<open>
  The context and the world after \<^verbatim>\<open>self0.close()\<close>, and a library whose appends
  fail (\<^verbatim>\<open>ENOSPC\<close> is 28).
\<close>

definition closed0 :: marquise where
  "closed0 = self0\<lparr>marquise_ctx := None\<rparr>"

definition shut0 :: world where
  "shut0 =
     \<lparr>calls = [Call_shutdown ctx0], ffi_errno = 0,
      stdout = [Shutting_down (spool_path_points self0) (spool_path_contents self0)],
      time_time = 3 / 2\<rparr>"


section \<open>Auxiliary facts\<close>

lemma calls_debug: "calls (debug self msg w) = calls w"
  by (simp add: debug_def)

lemma ffi_errno_debug: "ffi_errno (debug self msg w) = ffi_errno w"
  by (simp add: debug_def)

lemma time_time_debug: "time_time (debug self msg w) = time_time w"
  by (simp add: debug_def)

lemma current_timestamp_debug:
  "current_timestamp lib (debug self msg w) = current_timestamp lib w"
  by (simp add: current_timestamp_def time_time_debug)

lemma calls_native: "calls (native c e w) = calls w @ [c]"
  by (simp add: native_def)

lemma ffi_errno_native: "ffi_errno (native c e w) = e"
  by (simp add: native_def)

lemma list_ex_None: "list_ex (\<lambda>x. x = PyNone) xs = (PyNone \<in> set xs)"
  by (induction xs) auto

lemma close_closed:
  "marquise_ctx self = None \<Longrightarrow> close lib self w = (Inr (), self, debug self Already_closed w)"
  by (simp add: close_def)

lemma close_result:
  assumes "close lib self w = (r, self1, w1)"
  shows "r = Inr () \<and> marquise_ctx self1 = None"
  using assms by (cases "marquise_ctx self") (auto simp: close_def Let_def)

lemma close_self0: "close lib_ok self0 world0 = (Inr (), closed0, shut0)"
  by (simp add: close_def self0_def world0_def lib_ok_def closed0_def shut0_def debug_def
      native_def Let_def)

lemma open_self0: "marquise_ctx self0 = Some ctx0"
  by (simp add: self0_def)

text \<open>What the two send operations do on an open context, in full.\<close>

lemma send_simple_open:
  assumes "marquise_ctx self = Some c"
    and "marquise_send_simple lib (calls w) c (FFI_cast_uint64 address)
           (FFI_cast_uint64 (case timestamp of None \<Rightarrow> current_timestamp lib w | Some t \<Rightarrow> t))
           (FFI_cast_uint64 val) = (status, e)"
  shows "send_simple lib address timestamp val self w =
     (if status \<noteq> 0 then Inl (RuntimeError (Send_simple_failed e)) else Inr True, self,
      debug self (Send_simple_returned status)
        (native (Call_send_simple c (FFI_cast_uint64 address)
           (FFI_cast_uint64 (case timestamp of None \<Rightarrow> current_timestamp lib w | Some t \<Rightarrow> t))
           (FFI_cast_uint64 val)) e
          (debug self (Supplied_address (PyInt address)) w)))"
  using assms
  by (cases timestamp)
    (simp_all add: send_simple_def Let_def calls_debug current_timestamp_debug
      ffi_errno_debug ffi_errno_native)

lemma send_extended_open:
  assumes "marquise_ctx self = Some c"
    and "safe_encode (PyStr val) = Inr bs"
    and "marquise_send_extended lib (calls w) c (FFI_cast_uint64 address)
           (FFI_cast_uint64 (case timestamp of None \<Rightarrow> current_timestamp lib w | Some t \<Rightarrow> t))
           (bs @ [0]) (FFI_cast_size_t (length bs)) = (status, e)"
  shows "send_extended lib address timestamp val self w =
     (if status \<noteq> 0 then Inl (RuntimeError (Send_extended_failed e)) else Inr True, self,
      debug self (Send_extended_returned status)
        (native (Call_send_extended c (FFI_cast_uint64 address)
           (FFI_cast_uint64 (case timestamp of None \<Rightarrow> current_timestamp lib w | Some t \<Rightarrow> t))
           (bs @ [0]) (FFI_cast_size_t (length bs))) e
          (debug self (Sending_extended val (FFI_cast_size_t (length bs)))
            (debug self (Supplied_address (PyInt address)) w))))"
  using assms
  by (cases timestamp)
    (simp_all add: send_extended_def Let_def calls_debug current_timestamp_debug
      ffi_errno_debug ffi_errno_native cstring_def len_cstring_def FFI_new_chars_def
      del: safe_encode.simps)

lemma send_extended_unencodable:
  assumes "marquise_ctx self = Some c"
    and "safe_encode (PyStr val) = Inl ex"
  shows "send_extended lib address timestamp val self w =
     (Inl ex, self, debug self (Supplied_address (PyInt address)) w)"
  using assms
  by (simp add: send_extended_def Let_def cstring_def del: safe_encode.simps)

lemma uint_cast: "0 \<le> t \<Longrightarrow> t < 2 ^ 64 \<Longrightarrow> uint (FFI_cast_uint64 t) = t"
  by (simp add: FFI_cast_uint64_def uint_word_of_int take_bit_int_eq_self)

lemma unat_size_t: "n < 2 ^ 64 \<Longrightarrow> unat (FFI_cast_size_t n) = n"
  by (simp add: FFI_cast_size_t_def unat_of_nat take_bit_nat_eq_self)

lemma send_simple_calls:
  assumes "marquise_ctx self = Some c"
  shows "calls (snd (snd (send_simple lib address timestamp val self w))) =
     calls w @ [Call_send_simple c (FFI_cast_uint64 address)
        (FFI_cast_uint64 (case timestamp of None \<Rightarrow> current_timestamp lib w | Some t \<Rightarrow> t))
        (FFI_cast_uint64 val)]"
proof -
  obtain status e where "marquise_send_simple lib (calls w) c (FFI_cast_uint64 address)
           (FFI_cast_uint64 (case timestamp of None \<Rightarrow> current_timestamp lib w | Some t \<Rightarrow> t))
           (FFI_cast_uint64 val) = (status, e)"
    by (cases "marquise_send_simple lib (calls w) c (FFI_cast_uint64 address)
           (FFI_cast_uint64 (case timestamp of None \<Rightarrow> current_timestamp lib w | Some t \<Rightarrow> t))
           (FFI_cast_uint64 val)") blast
  from send_simple_open [OF assms this] show ?thesis
    by (simp add: calls_debug calls_native)
qed

lemma send_extended_calls:
  assumes "marquise_ctx self = Some c" and "safe_encode (PyStr val) = Inr bs"
  shows "calls (snd (snd (send_extended lib address timestamp val self w))) =
     calls w @ [Call_send_extended c (FFI_cast_uint64 address)
        (FFI_cast_uint64 (case timestamp of None \<Rightarrow> current_timestamp lib w | Some t \<Rightarrow> t))
        (bs @ [0]) (FFI_cast_size_t (length bs))]"
proof -
  obtain status e where "marquise_send_extended lib (calls w) c (FFI_cast_uint64 address)
           (FFI_cast_uint64 (case timestamp of None \<Rightarrow> current_timestamp lib w | Some t \<Rightarrow> t))
           (bs @ [0]) (FFI_cast_size_t (length bs)) = (status, e)"
    by (cases "marquise_send_extended lib (calls w) c (FFI_cast_uint64 address)
           (FFI_cast_uint64 (case timestamp of None \<Rightarrow> current_timestamp lib w | Some t \<Rightarrow> t))
           (bs @ [0]) (FFI_cast_size_t (length bs))") blast
  from send_extended_open [OF assms this] show ?thesis
    by (simp add: calls_debug calls_native)
qed

lemma enc_a: "safe_encode (PyStr [0x61]) = Inr [0x61]"
  by (simp add: utf8_char_def is_scalar_def)

lemma enc_nul: "safe_encode (PyStr [0x61, 0, 0xE9]) = Inr [0x61, 0, 0xC3, 0xA9]"
  by (simp add: utf8_char_def is_scalar_def)

text \<open>
  UTF-8: a code point below U+0080 is one byte, its own value; every byte of a longer
  sequence is \<open>0x80\<close> or more. So the encoding of a string has a NUL byte only where the
  string has a NUL character, and consists of the bytes \<^verbatim>\<open>a-z0-9\<close> only when the
  string consists of these characters.
\<close>

lemma unat_byte: "n < 256 \<Longrightarrow> unat (of_nat n :: byte) = n"
  by (simp add: unat_of_nat)

lemma utf8_char_ascii: "c < 0x80 \<Longrightarrow> utf8_char c = [of_nat c]"
  by (simp add: utf8_char_def)

lemma utf8_char_not_Nil: "utf8_char c \<noteq> []"
  by (simp add: utf8_char_def)

lemma high_byte: "0x80 \<le> n \<Longrightarrow> n < 256 \<Longrightarrow> (0x80 :: byte) \<le> of_nat n"
  by (simp add: word_le_nat_alt unat_byte)

lemma utf8_char_high:
  assumes "0x80 \<le> c" and "c < 0x110000"
  shows "list_all (\<lambda>b. 0x80 \<le> b) (utf8_char c)"
proof -
  consider "c < 0x800" | "0x800 \<le> c" "c < 0x10000" | "0x10000 \<le> c"
    by linarith
  then show ?thesis
  proof cases
    case 1
    then have "c div 0x40 < 0x20" by arith
    with assms 1 show ?thesis
      by (simp add: utf8_char_def high_byte del: of_nat_add)
  next
    case 2
    then have "c div 0x1000 < 0x10" by arith
    with assms 2 show ?thesis
      by (simp add: utf8_char_def high_byte del: of_nat_add)
  next
    case 3
    from assms have "c div 0x40000 < 0x10" by arith
    with assms 3 show ?thesis
      by (simp add: utf8_char_def high_byte del: of_nat_add)
  qed
qed

lemma is_scalar_bound: "is_scalar c \<Longrightarrow> c < 0x110000"
  by (auto simp: is_scalar_def)

lemma high_not_namespace_char: "0x80 \<le> b \<Longrightarrow> \<not> namespace_char b"
  by (auto simp: namespace_char_def word_le_nat_alt)

lemma high_not_zero: "(0x80 :: byte) \<le> b \<Longrightarrow> b \<noteq> 0"
  by (auto simp: word_le_nat_alt)

lemma namespace_char_of_nat: "c < 0x80 \<Longrightarrow> namespace_char (of_nat c) = namespace_cp c"
  by (simp add: namespace_char_def namespace_cp_def word_le_nat_alt unat_byte)

lemma of_nat_byte_zero: "c < 0x80 \<Longrightarrow> ((of_nat c :: byte) = 0) = (c = 0)"
  by (simp add: word_eq_iff_unsigned [where ?'a = nat] unat_byte)

lemma utf8_char_nonzero:
  assumes "is_scalar c" and "c \<noteq> 0"
  shows "\<forall>b \<in> set (utf8_char c). b \<noteq> 0"
proof (cases "c < 0x80")
  case True
  with assms show ?thesis
    by (simp add: utf8_char_ascii of_nat_byte_zero)
next
  case False
  with utf8_char_high [of c] is_scalar_bound [OF assms(1)] show ?thesis
    by (auto simp: list_all_iff dest: high_not_zero)
qed

lemma utf8_char_namespace:
  assumes "is_scalar c" and "list_all namespace_char (utf8_char c)"
  shows "namespace_cp c"
proof (cases "c < 0x80")
  case True
  with assms show ?thesis
    by (simp add: utf8_char_ascii namespace_char_of_nat)
next
  case False
  with utf8_char_high [of c] is_scalar_bound [OF assms(1)]
  have "list_all (\<lambda>b. 0x80 \<le> b) (utf8_char c)" by simp
  with assms(2) utf8_char_not_Nil [of c] show ?thesis
    by (cases "utf8_char c") (auto dest: high_not_namespace_char)
qed

lemma encode_utf8_Cons:
  "encode_utf8 (c # cs) = Inr bs \<Longrightarrow>
    \<exists>bs'. is_scalar c \<and> encode_utf8 cs = Inr bs' \<and> bs = utf8_char c @ bs'"
  by (auto split: if_splits sum.splits)

lemma encode_utf8_prefix:
  "encode_utf8 ns = Inr bs \<Longrightarrow>
    encode_utf8 (takeWhile (\<lambda>c. c \<noteq> 0) ns) = Inr (takeWhile (\<lambda>b. b \<noteq> 0) bs)"
proof (induction ns arbitrary: bs)
  case Nil
  then show ?case by simp
next
  case (Cons c cs)
  from encode_utf8_Cons [OF Cons.prems] obtain bs' where
    c: "is_scalar c" and cs: "encode_utf8 cs = Inr bs'" and bs: "bs = utf8_char c @ bs'"
    by blast
  show ?case
  proof (cases "c = 0")
    case True
    with bs show ?thesis by (simp add: utf8_char_def)
  next
    case False
    from utf8_char_nonzero [OF c False]
    have "takeWhile (\<lambda>b. b \<noteq> 0) (utf8_char c @ bs') = utf8_char c @ takeWhile (\<lambda>b. b \<noteq> 0) bs'"
      by (intro takeWhile_append2) simp
    with False c bs Cons.IH [OF cs] show ?thesis by simp
  qed
qed

lemma encode_utf8_namespace:
  "encode_utf8 ns = Inr bs \<Longrightarrow> list_all namespace_char bs \<Longrightarrow> list_all namespace_cp ns"
proof (induction ns arbitrary: bs)
  case Nil
  then show ?case by simp
next
  case (Cons c cs)
  from encode_utf8_Cons [OF Cons.prems(1)] obtain bs' where
    c: "is_scalar c" and cs: "encode_utf8 cs = Inr bs'" and bs: "bs = utf8_char c @ bs'"
    by blast
  with Cons.prems(2) have "list_all namespace_char (utf8_char c)" "list_all namespace_char bs'"
    by simp_all
  with c cs Cons.IH show ?case
    by (simp add: utf8_char_namespace)
qed

lemma encode_utf8_valid:
  assumes "encode_utf8 ns = Inr bs" and "valid_namespace bs"
  shows "valid_namespace_str ns"
proof -
  from assms have "ns \<noteq> []"
    by (auto simp: valid_namespace_def)
  with assms encode_utf8_namespace [of ns bs] show ?thesis
    by (simp add: valid_namespace_def valid_namespace_str_def)
qed

lemma namespace_cp_ascii: "namespace_cp c \<Longrightarrow> c < 0x80 \<and> c \<noteq> 0 \<and> is_scalar c"
  by (auto simp: namespace_cp_def is_scalar_def)

lemma encode_utf8_ascii: "list_all namespace_cp ns \<Longrightarrow> encode_utf8 ns = Inr (map of_nat ns)"
  by (induction ns) (auto dest!: namespace_cp_ascii simp: utf8_char_ascii)

lemma FFI_string_new: "FFI_string (FFI_new_chars bs) = takeWhile (\<lambda>b. b \<noteq> 0) bs"
  by (induction bs) (simp_all add: FFI_string_def FFI_new_chars_def)

lemma FFI_string_zero_free:
  "list_all (\<lambda>b. b \<noteq> 0) bs \<Longrightarrow> FFI_string (FFI_new_chars bs) = bs"
  by (simp add: FFI_string_new list_all_iff)

lemma safe_decode_ascii: "list_all (\<lambda>b. b < 0x80) bs \<Longrightarrow> safe_decode bs = Inr (map unat bs)"
  by (induction bs) simp_all

lemma Marquise_init_invalid:
  assumes "encode_utf8 namespace = Inr bs"
    and "\<not> valid_namespace (takeWhile (\<lambda>b. b \<noteq> 0) bs)"
  shows "Marquise_init lib namespace dbg w =
    (Inl (ValueError (Invalid_namespace namespace)), native (Call_init (bs @ [0])) EINVAL w)"
  using assms FFI_string_new [of bs]
  by (simp add: Marquise_init_def cstring_def marquise_init_def Let_def ffi_errno_native
      FFI_new_chars_def)

lemma namespace_cp_byte:
  assumes "namespace_cp c"
  shows "(of_nat c :: byte) \<noteq> 0" and "(of_nat c :: byte) < 0x80"
    and "namespace_char (of_nat c)" and "unat (of_nat c :: byte) = c"
  using namespace_cp_ascii [OF assms] assms
  by (simp_all add: namespace_char_of_nat of_nat_byte_zero word_less_nat_alt unat_byte)

lemma namespace_bytes:
  assumes "list_all namespace_cp ns"
  shows "list_all (\<lambda>b. b \<noteq> 0 \<and> b < 0x80) (map of_nat ns :: byte list)"
    and "list_all namespace_char (map of_nat ns :: byte list)"
    and "map unat (map of_nat ns :: byte list) = ns"
  using assms
  by (induction ns) (simp_all add: namespace_cp_byte)

lemma stream_name_ascii: "list_all (\<lambda>b. b \<noteq> 0 \<and> b < 0x80) (stream_name s)"
  by (cases s) simp_all

text \<open>
  Decoding undoes encoding: the bytes of a code point, followed by anything, decode to
  the code point followed by what the rest decodes to.
\<close>

lemma split3: "(c::nat) div 0x1000 * 0x1000 + c div 0x40 mod 0x40 * 0x40 + c mod 0x40 = c"
proof -
  define q where "q = c div 0x40"
  define a where "a = q div 0x40"
  define m where "m = q mod 0x40"
  define r where "r = c mod 0x40"
  have 1: "c = q * 0x40 + r"
    by (simp add: q_def r_def)
  have 2: "q = a * 0x40 + m"
    by (simp add: a_def m_def)
  have 3: "c div 0x1000 = a"
    by (simp add: a_def q_def div_mult2_eq [symmetric])
  have "a * 0x1000 + m * 0x40 + r = (a * 0x40 + m) * 0x40 + r"
    by (simp add: add_mult_distrib)
  also have "\<dots> = q * 0x40 + r"
    by (simp only: 2 [symmetric])
  also have "\<dots> = c"
    by (simp only: 1 [symmetric])
  finally show ?thesis
    by (simp add: 3 m_def q_def r_def)
qed

lemma split4:
  "(c::nat) div 0x40000 * 0x40000 + c div 0x1000 mod 0x40 * 0x1000 + c div 0x40 mod 0x40 * 0x40
     + c mod 0x40 = c"
proof -
  define p where "p = c div 0x1000"
  define a where "a = p div 0x40"
  define m where "m = p mod 0x40"
  have 2: "p = a * 0x40 + m"
    by (simp add: a_def m_def)
  have 3: "c div 0x40000 = a"
    by (simp add: a_def p_def div_mult2_eq [symmetric])
  have "a * 0x40000 + m * 0x1000 = (a * 0x40 + m) * 0x1000"
    by (simp add: add_mult_distrib)
  also have "\<dots> = p * 0x1000"
    by (simp only: 2 [symmetric])
  finally have "a * 0x40000 + m * 0x1000 = p * 0x1000" .
  with split3 [of c] have "a * 0x40000 + m * 0x1000 + c div 0x40 mod 0x40 * 0x40 + c mod 0x40 = c"
    by (simp add: p_def)
  then show ?thesis
    by (simp add: 3 m_def p_def)
qed

lemma lead_bounds:
  fixes c :: nat
  shows "c < 0x10000 \<Longrightarrow> c div 0x1000 < 0x10" and "c < 0x110000 \<Longrightarrow> c div 0x40000 < 5"
  by (simp_all add: div_less_iff_less_mult)

lemma decode1:
  assumes "c < 0x80"
  shows "safe_decode (utf8_char c @ bs) = cons_ok c (safe_decode bs)"
  using assms
  by (simp add: utf8_char_def word_less_nat_alt unat_byte)

lemma decode2:
  assumes "0x80 \<le> c" and "c < 0x800"
  shows "safe_decode (utf8_char c @ bs) = cons_ok c (safe_decode bs)"
proof -
  have d: "c div 0x40 < 0x20" "2 \<le> c div 0x40"
    using assms by arith+
  have m: "c mod 0x40 < 0x40"
    by simp
  show ?thesis
    using assms d m
    by (simp add: utf8_char_def cont_def cp2_def word_le_nat_alt word_less_nat_alt unat_byte
        del: of_nat_add)
qed

lemma decode3:
  assumes "0x800 \<le> c" and "c < 0x10000" and "is_scalar c"
  shows "safe_decode (utf8_char c @ bs) = cons_ok c (safe_decode bs)"
proof -
  define x :: byte where "x = of_nat (0xE0 + c div 0x1000)"
  define y :: byte where "y = of_nat (0x80 + c div 0x40 mod 0x40)"
  define z :: byte where "z = of_nat (0x80 + c mod 0x40)"
  have x: "unat x = 0xE0 + c div 0x1000"
    unfolding x_def using lead_bounds(1) [OF assms(2)] by (intro unat_byte) simp
  have y: "unat y = 0x80 + c div 0x40 mod 0x40"
    unfolding y_def by (intro unat_byte) simp
  have z: "unat z = 0x80 + c mod 0x40"
    unfolding z_def by (intro unat_byte) simp
  have cp: "cp3 x y z = c"
    unfolding cp3_def x y z using split3 [of c] by simp
  have lead: "(x < 0x80) = False" "(x < 0xE0) = False" "(0xE0 \<le> x) = True" "(x < 0xF0) = True"
    using lead_bounds(1) [OF assms(2)] by (simp_all add: word_le_nat_alt word_less_nat_alt x)
  have conts: "cont y" "cont z"
    by (simp_all add: cont_def word_le_nat_alt word_less_nat_alt y z)
  have u: "utf8_char c = [x, y, z]"
    using assms by (simp add: utf8_char_def x_def y_def z_def)
  show ?thesis
    unfolding u using assms by (simp add: lead conts cp)
qed

lemma decode4:
  assumes "0x10000 \<le> c" and "c < 0x110000" and "is_scalar c"
  shows "safe_decode (utf8_char c @ bs) = cons_ok c (safe_decode bs)"
proof -
  define x :: byte where "x = of_nat (0xF0 + c div 0x40000)"
  define y :: byte where "y = of_nat (0x80 + c div 0x1000 mod 0x40)"
  define z :: byte where "z = of_nat (0x80 + c div 0x40 mod 0x40)"
  define t :: byte where "t = of_nat (0x80 + c mod 0x40)"
  have x: "unat x = 0xF0 + c div 0x40000"
    unfolding x_def using lead_bounds(2) [OF assms(2)] by (intro unat_byte) simp
  have y: "unat y = 0x80 + c div 0x1000 mod 0x40"
    unfolding y_def by (intro unat_byte) simp
  have z: "unat z = 0x80 + c div 0x40 mod 0x40"
    unfolding z_def by (intro unat_byte) simp
  have t: "unat t = 0x80 + c mod 0x40"
    unfolding t_def by (intro unat_byte) simp
  have cp: "cp4 x y z t = c"
    unfolding cp4_def x y z t using split4 [of c] by simp
  have lead: "(x < 0x80) = False" "(x < 0xE0) = False" "(x < 0xF0) = False"
      "(0xF0 \<le> x) = True" "(x < 0xF5) = True"
    using lead_bounds(2) [OF assms(2)] by (simp_all add: word_le_nat_alt word_less_nat_alt x)
  have conts: "cont y" "cont z" "cont t"
    by (simp_all add: cont_def word_le_nat_alt word_less_nat_alt y z t)
  have u: "utf8_char c = [x, y, z, t]"
    using assms by (simp add: utf8_char_def x_def y_def z_def t_def)
  show ?thesis
    unfolding u using assms by (simp add: lead conts cp)
qed

lemma safe_decode_utf8_char:
  assumes "is_scalar c"
  shows "safe_decode (utf8_char c @ bs) = cons_ok c (safe_decode bs)"
proof -
  consider "c < 0x80" | "0x80 \<le> c" "c < 0x800" | "0x800 \<le> c" "c < 0x10000"
    | "0x10000 \<le> c" "c < 0x110000"
    using is_scalar_bound [OF assms] by linarith
  then show ?thesis
    using assms by cases (simp_all only: decode1 decode2 decode3 decode4)
qed

lemma safe_decode_encode:
  "encode_utf8 s = Inr bs \<Longrightarrow> safe_decode rest = Inr cs \<Longrightarrow>
    safe_decode (bs @ rest) = Inr (s @ cs)"
proof (induction s arbitrary: bs)
  case Nil
  then show ?case by simp
next
  case (Cons c s)
  from encode_utf8_Cons [OF Cons.prems(1)] obtain bs' where
    c: "is_scalar c" and s: "encode_utf8 s = Inr bs'" and bs: "bs = utf8_char c @ bs'"
    by blast
  have "safe_decode (bs @ rest) = cons_ok c (safe_decode (bs' @ rest))"
    unfolding bs using safe_decode_utf8_char [OF c, of "bs' @ rest"] by simp
  with Cons.IH [OF s Cons.prems(2)] show ?case
    by simp
qed

lemma encode_utf8_zero_free:
  "encode_utf8 s = Inr bs \<Longrightarrow> 0 \<notin> set s \<Longrightarrow> list_all (\<lambda>b. b \<noteq> 0) bs"
proof (induction s arbitrary: bs)
  case Nil
  then show ?case by simp
next
  case (Cons c s)
  from encode_utf8_Cons [OF Cons.prems(1)] obtain bs' where
    c: "is_scalar c" and s: "encode_utf8 s = Inr bs'" and bs: "bs = utf8_char c @ bs'"
    by blast
  from Cons.prems(2) have "c \<noteq> 0" and "0 \<notin> set s"
    by auto
  with utf8_char_nonzero [OF c] Cons.IH [OF s] bs show ?case
    by (auto simp: list_all_iff)
qed

lemma cprint_spool_path_utf8:
  assumes "encode_utf8 base = Inr sb" and "0 \<notin> set base" and "list_all namespace_cp ns"
  shows "cprint (FFI_new_chars (build_spool_path sb (map of_nat ns) s)) =
    Inr (base @ [0x2F] @ ns @ [0x2F] @ map unat (stream_name s))"
proof -
  define rest :: "byte list" where "rest = [0x2F] @ map of_nat ns @ [0x2F] @ stream_name s"
  have ascii: "list_all (\<lambda>b. b \<noteq> 0 \<and> b < 0x80) rest"
    unfolding rest_def using namespace_bytes(1) [OF assms(3)] stream_name_ascii [of s] by simp
  then have "list_all (\<lambda>b. b < 0x80) rest" and nz: "list_all (\<lambda>b. b \<noteq> 0) rest"
    by (simp_all add: list_all_iff)
  then have "safe_decode rest = Inr (map unat rest)"
    by (simp add: safe_decode_ascii)
  from safe_decode_encode [OF assms(1) this]
  have dec: "safe_decode (sb @ rest) = Inr (base @ map unat rest)" .
  from encode_utf8_zero_free [OF assms(1,2)] nz have "list_all (\<lambda>b. b \<noteq> 0) (sb @ rest)"
    by simp
  then have "cprint (FFI_new_chars (sb @ rest)) = Inr (base @ map unat rest)"
    by (simp add: cprint_def FFI_string_zero_free dec)
  moreover have "build_spool_path sb (map of_nat ns) s = sb @ rest"
    by (simp add: build_spool_path_def rest_def)
  moreover have "map unat rest = [0x2F] @ ns @ [0x2F] @ map unat (stream_name s)"
    using namespace_bytes(3) [OF assms(3)] by (simp add: rest_def)
  ultimately show ?thesis
    by simp
qed

section \<open>Properties\<close>

text \<open>
  C1. \<^verbatim>\<open>hash_identifier\<close> hands the native hash the buffer of the identifier's UTF-8
  bytes together with \<^verbatim>\<open>len(identifier)\<close>, the number of code points. For the
  one-character identifier U+00E9 the encoding has two bytes (as \<^verbatim>\<open>len_cstring\<close>
  reports) and the length passed is 1: the hash covers the first byte only.
\<close>

theorem hash_identifier_non_ascii:
  "hash_identifier lib [0xE9] = Inr (marquise_hash_identifier lib [0xC3, 0xA9, 0] 1)
   \<and> len_cstring (PyStr [0xE9]) = Inr 2"
  by (simp add: hash_identifier_def cstring_def len_cstring_def FFI_new_chars_def
      utf8_char_def is_scalar_def)

text \<open>
  C2. On an open context, \<^verbatim>\<open>update_source\<close> with a metadata mapping that has
  \<^verbatim>\<open>None\<close> among its keys or among its values raises \<^verbatim>\<open>TypeError\<close> and writes
  nothing: no native call is made (the history of native calls, through which alone the
  contents spool changes, is as before), \<^verbatim>\<open>FFI.errno\<close> is as before, and the context
  is unchanged. Only the debugging line printed before the check is new.
\<close>

theorem update_source_None_rejected:
  assumes "marquise_ctx self = Some c"
    and "PyNone \<in> set (map fst metadata_dict) \<or> PyNone \<in> set (map snd metadata_dict)"
    and "update_source lib address metadata_dict self w = (r, self1, w1)"
  shows "r = Inl (TypeError
               (if PyNone \<in> set (map fst metadata_dict) then None_key else None_value))
    \<and> self1 = self \<and> calls w1 = calls w \<and> ffi_errno w1 = ffi_errno w
    \<and> w1 = debug self (Supplied_address address) w"
  using assms
  by (auto simp: update_source_def Let_def list_ex_None calls_debug ffi_errno_debug
      simp del: set_map)

theorem update_source_None_rejected_witness:
  "marquise_ctx self0 = Some ctx0
   \<and> update_source lib_ok (PyInt 7) [(PyStr [0x6B], PyNone)] self0 world0
       = (Inl (TypeError None_value), self0,
          world0\<lparr>stdout := [Supplied_address (PyInt 7)]\<rparr>)
   \<and> calls (world0\<lparr>stdout := [Supplied_address (PyInt 7)]\<rparr>) = calls world0"
proof -
  have run: "update_source lib_ok (PyInt 7) [(PyStr [0x6B], PyNone)] self0 world0
     = (Inl (TypeError None_value), self0, world0\<lparr>stdout := [Supplied_address (PyInt 7)]\<rparr>)"
    by (simp add: update_source_def self0_def world0_def debug_def Let_def)
  from update_source_None_rejected [OF open_self0 _ run] show ?thesis
    using run open_self0 by (simp add: calls_debug)
qed

text \<open>
  C3. Once \<^verbatim>\<open>close()\<close> has returned, \<^verbatim>\<open>send_simple\<close>, \<^verbatim>\<open>send_extended\<close> and
  \<^verbatim>\<open>update_source\<close> on that context raise the \<^verbatim>\<open>ValueError\<close> "Attempted to write
  to a closed Marquise handle", whatever their other arguments and whatever has happened
  in the world since; they change neither the context nor the world, so the context
  stays closed for every later call.
\<close>

theorem closed_handle_errors:
  assumes "close lib self w = (r, self1, w1)"
  shows "send_simple lib address timestamp val self1 w2
           = (Inl (ValueError Closed_handle), self1, w2)
    \<and> send_extended lib address timestamp sval self1 w2
           = (Inl (ValueError Closed_handle), self1, w2)
    \<and> update_source lib oaddress metadata_dict self1 w2
           = (Inl (ValueError Closed_handle), self1, w2)"
  using close_result [OF assms]
  by (simp add: send_simple_def send_extended_def update_source_def)

theorem closed_handle_errors_witness:
  "close lib_ok self0 world0 = (Inr (), closed0, shut0)
   \<and> send_simple lib_ok 42 None 7 closed0 shut0 = (Inl (ValueError Closed_handle), closed0, shut0)
   \<and> send_extended lib_ok 42 (Some 5) [0x61] closed0 shut0
       = (Inl (ValueError Closed_handle), closed0, shut0)
   \<and> update_source lib_ok (PyStr [0x61]) [(PyNone, PyInt 3)] closed0 shut0
       = (Inl (ValueError Closed_handle), closed0, shut0)"
  using close_self0
    closed_handle_errors [OF close_self0, where ?w2.0 = shut0 and address = 42
      and timestamp = None and val = 7 and sval = "[0x61]" and oaddress = "PyStr [0x61]"
      and metadata_dict = "[(PyNone, PyInt 3)]"]
    closed_handle_errors [OF close_self0, where ?w2.0 = shut0 and address = 42
      and timestamp = "Some 5" and sval = "[0x61]"]
  by simp

text \<open>
  C4. A \<^verbatim>\<open>close()\<close> after a first \<^verbatim>\<open>close()\<close> raises nothing, makes no native
  call (no second \<^verbatim>\<open>marquise_shutdown\<close>) and leaves the context as it was; it only
  prints the debugging line when debugging is on. Since the context it returns is the
  closed one again, the same holds for every later \<^verbatim>\<open>close()\<close>.
\<close>

theorem close_idempotent:
  assumes "close lib self w = (r, self1, w1)"
  shows "close lib self1 w2 = (Inr (), self1, debug self1 Already_closed w2)
    \<and> calls (debug self1 Already_closed w2) = calls w2
    \<and> ffi_errno (debug self1 Already_closed w2) = ffi_errno w2"
  using close_result [OF assms]
  by (simp add: close_closed calls_debug ffi_errno_debug)

theorem close_idempotent_witness:
  "close lib_ok self0 world0 = (Inr (), closed0, shut0)
   \<and> close lib_ok closed0 shut0 = (Inr (), closed0, debug closed0 Already_closed shut0)
   \<and> calls (debug closed0 Already_closed shut0) = [Call_shutdown ctx0]"
  using close_self0 close_idempotent [OF close_self0, of shut0]
  by (simp add: shut0_def)

text \<open>
  C5. On an open context, \<^verbatim>\<open>send_simple\<close> and \<^verbatim>\<open>send_extended\<close> called with
  \<^verbatim>\<open>timestamp=None\<close> hand the native append the value of
  \<^verbatim>\<open>int(time.time() * 1000000000)\<close> (cast to \<^verbatim>\<open>uint64_t\<close>) as the timestamp; a
  timestamp that is supplied is handed on as it is (a \<^verbatim>\<open>uint64\<close> value survives the
  cast unchanged).
\<close>

theorem timestamp_substitution:
  assumes "marquise_ctx self = Some c"
    and "safe_encode (PyStr sval) = Inr bs"
    and "0 \<le> t" and "t < 2 ^ 64"
  shows "calls (snd (snd (send_simple lib address None val self w))) =
           calls w @ [Call_send_simple c (FFI_cast_uint64 address)
             (FFI_cast_uint64 (py_int (float_mul lib (time_time w) 1000000000)))
             (FFI_cast_uint64 val)]
    \<and> calls (snd (snd (send_simple lib address (Some t) val self w))) =
           calls w @ [Call_send_simple c (FFI_cast_uint64 address) (FFI_cast_uint64 t)
             (FFI_cast_uint64 val)]
    \<and> calls (snd (snd (send_extended lib address None sval self w))) =
           calls w @ [Call_send_extended c (FFI_cast_uint64 address)
             (FFI_cast_uint64 (py_int (float_mul lib (time_time w) 1000000000)))
             (bs @ [0]) (FFI_cast_size_t (length bs))]
    \<and> calls (snd (snd (send_extended lib address (Some t) sval self w))) =
           calls w @ [Call_send_extended c (FFI_cast_uint64 address) (FFI_cast_uint64 t)
             (bs @ [0]) (FFI_cast_size_t (length bs))]
    \<and> uint (FFI_cast_uint64 t) = t"
  using assms
  by (simp add: send_simple_calls send_extended_calls current_timestamp_def uint_cast
      del: safe_encode.simps)

theorem timestamp_substitution_witness:
  "marquise_ctx self0 = Some ctx0 \<and> safe_encode (PyStr [0x61]) = Inr [0x61]
   \<and> (0::int) \<le> 5 \<and> (5::int) < 2 ^ 64
   \<and> calls (snd (snd (send_simple lib_ok 42 None 7 self0 world0))) =
       [Call_send_simple ctx0 42 1500000000 7]
   \<and> calls (snd (snd (send_simple lib_ok 42 (Some 5) 7 self0 world0))) =
       [Call_send_simple ctx0 42 5 7]
   \<and> calls (snd (snd (send_extended lib_ok 42 None [0x61] self0 world0))) =
       [Call_send_extended ctx0 42 1500000000 [0x61, 0] 1]
   \<and> calls (snd (snd (send_extended lib_ok 42 (Some 5) [0x61] self0 world0))) =
       [Call_send_extended ctx0 42 5 [0x61, 0] 1]"
  using timestamp_substitution [OF open_self0 enc_a, of 5 lib_ok 42 7 world0] open_self0 enc_a
  by (simp add: world0_def lib_ok_def py_int_def FFI_cast_uint64_def FFI_cast_size_t_def
      del: safe_encode.simps)


text \<open>
  C6. On an open context, \<^verbatim>\<open>send_extended\<close> hands the native append the buffer
  holding the UTF-8 bytes of the value and, as explicit length, the number of those
  bytes: the first \<open>length\<close> bytes of the buffer are the whole encoding, embedded NUL
  bytes and multi-byte characters included.
\<close>

theorem send_extended_explicit_length:
  assumes "marquise_ctx self = Some c"
    and "safe_encode (PyStr val) = Inr bs"
    and "length bs < 2 ^ 64"
  shows "calls (snd (snd (send_extended lib address timestamp val self w))) =
           calls w @ [Call_send_extended c (FFI_cast_uint64 address)
             (FFI_cast_uint64
               (case timestamp of None \<Rightarrow> current_timestamp lib w | Some t \<Rightarrow> t))
             (bs @ [0]) (FFI_cast_size_t (length bs))]
    \<and> unat (FFI_cast_size_t (length bs)) = length bs
    \<and> take (unat (FFI_cast_size_t (length bs))) (bs @ [0]) = bs"
  using assms
  by (simp add: send_extended_calls unat_size_t del: safe_encode.simps)

theorem send_extended_explicit_length_witness:
  "marquise_ctx self0 = Some ctx0
   \<and> safe_encode (PyStr [0x61, 0, 0xE9]) = Inr [0x61, 0, 0xC3, 0xA9]
   \<and> length [0x61, 0, 0xC3, 0xA9 :: byte] < 2 ^ 64
   \<and> calls (snd (snd (send_extended lib_ok 42 (Some 5) [0x61, 0, 0xE9] self0 world0))) =
       [Call_send_extended ctx0 42 5 [0x61, 0, 0xC3, 0xA9, 0] 4]
   \<and> take (unat (4 :: uint64)) [0x61, 0, 0xC3, 0xA9, 0 :: byte] = [0x61, 0, 0xC3, 0xA9]"
  using send_extended_explicit_length [OF open_self0 enc_nul, of lib_ok 42 "Some 5" world0]
    open_self0 enc_nul
  by (simp add: world0_def FFI_cast_uint64_def FFI_cast_size_t_def del: safe_encode.simps)




text \<open>
  C10. \<^verbatim>\<open>update_source\<close> frees the source dictionary on success, on a nonzero
  status and on a \<^verbatim>\<open>TypeError\<close> of the native call (lemma
  \<open>update_source_frees_once\<close> below), but only \<^verbatim>\<open>TypeError\<close> is caught: with the
  address \<open>-1\<close>, which does not fit \<^verbatim>\<open>uint64_t\<close>, the call raises
  \<^verbatim>\<open>OverflowError\<close> after \<^verbatim>\<open>marquise_new_source\<close> has returned the handle, and
  \<^verbatim>\<open>marquise_free_source\<close> is never called.
\<close>

theorem update_source_overflow_leaks:
  "update_source lib_ok (PyInt (- 1)) [(PyStr [0x6B], PyStr [0x76])] self0 world0 =
     (Inl (OverflowError Does_not_fit), self0,
      world0\<lparr>calls := [Call_new_source [[0x6B, 0]] [[0x76, 0]] 1],
             stdout := [Supplied_address (PyInt (- 1))]\<rparr>)"
  by (simp add: update_source_def self0_def world0_def lib_ok_def debug_def native_def Let_def
      cstring_def FFI_new_chars_def utf8_char_def is_scalar_def)

text \<open>
  The listed paths do free the handle once: after \<^verbatim>\<open>marquise_new_source\<close> has
  returned a handle, and unless the address raises \<^verbatim>\<open>OverflowError\<close>, the native
  calls of \<^verbatim>\<open>update_source\<close> end with exactly one \<^verbatim>\<open>marquise_free_source\<close>.
\<close>

lemma update_source_frees_once:
  assumes "marquise_ctx self = Some c"
    and "PyNone \<notin> set (map fst metadata_dict)" and "PyNone \<notin> set (map snd metadata_dict)"
    and "cstrings (map fst metadata_dict) = Inr c_fields"
    and "cstrings (map snd metadata_dict) = Inr c_values"
    and "marquise_new_source lib (calls w) c_fields c_values (length metadata_dict) = (Some sd, e)"
    and "to_c_uint64 address \<noteq> Inl (OverflowError Does_not_fit)"
  shows "drop (length (calls w)) (calls (snd (snd (update_source lib address metadata_dict self w))))
     = (case to_c_uint64 address of
          Inl ex \<Rightarrow> [Call_new_source c_fields c_values (length metadata_dict), Call_free_source sd]
        | Inr a \<Rightarrow> [Call_new_source c_fields c_values (length metadata_dict),
                    Call_update_source c a sd, Call_free_source sd])"
  using assms
  by (cases address)
    (auto simp: update_source_def Let_def list_ex_None calls_debug calls_native free_source_def
      split: prod.splits if_splits simp del: set_map)


text \<open>
  C7. The namespace \<^verbatim>\<open>"a\0!"\<close> violates \<^verbatim>\<open>[a-z0-9]+\<close>. The binding hands
  \<^verbatim>\<open>marquise_init\<close> the buffer \<open>61 00 21 00\<close> as a \<^verbatim>\<open>char *\<close> with no
  length, so the library validates the C string \<^verbatim>\<open>"a"\<close>, and the context is opened
  on the namespace \<^verbatim>\<open>a\<close> where the \<^verbatim>\<open>ValueError\<close> naming the invalid namespace
  was due.
\<close>

theorem embedded_NUL_namespace_opens:
  "\<not> valid_namespace_str [0x61, 0, 0x21]
   \<and> fst (Marquise_init lib_ok [0x61, 0, 0x21] False world0) =
       Inr \<lparr>debug_enabled = False, namespace_c = [0x61, 0, 0x21, 0],
            marquise_ctx = Some
              \<lparr>ctx_spool_path_points = map of_char ''/spool/a/points'' @ [0],
               ctx_spool_path_contents = map of_char ''/spool/a/contents'' @ [0]\<rparr>,
            spool_path_points = map of_char ''/spool/a/points'',
            spool_path_contents = map of_char ''/spool/a/contents''\<rparr>"
  by (simp add: valid_namespace_str_def namespace_cp_def Marquise_init_def cstring_def
      FFI_new_chars_def utf8_char_def is_scalar_def marquise_init_def FFI_string_def
      valid_namespace_def namespace_char_def lib_ok_def world0_def build_spool_path_def
      native_def cprint_def Let_def)

text \<open>
  Where the part of the namespace before its first NUL character (all of it, when it has
  none) violates the pattern, the binding does raise the \<^verbatim>\<open>ValueError\<close> naming the
  namespace, after the one native call that left \<^verbatim>\<open>EINVAL\<close> in \<^verbatim>\<open>errno\<close>.
\<close>

lemma invalid_namespace_ValueError:
  assumes "encode_utf8 namespace = Inr bs"
    and "\<not> valid_namespace_str (takeWhile (\<lambda>c. c \<noteq> 0) namespace)"
  shows "Marquise_init lib namespace dbg w =
    (Inl (ValueError (Invalid_namespace namespace)), native (Call_init (bs @ [0])) EINVAL w)"
proof -
  from encode_utf8_valid [OF encode_utf8_prefix [OF assms(1)]] assms(2)
  have "\<not> valid_namespace (takeWhile (\<lambda>b. b \<noteq> 0) bs)"
    by blast
  from Marquise_init_invalid [OF assms(1) this] show ?thesis .
qed

text \<open>
  C9, as the code has it. For every namespace matching \<^verbatim>\<open>[a-z0-9]+\<close>, when
  \<^verbatim>\<open>marquise_init\<close> obtains its resources and the spool base directory is the UTF-8
  encoding of a string without NUL, \<^verbatim>\<open>Marquise(namespace)\<close> succeeds and the context
  exposes the two spool paths of the native context, \<open>base/namespace/points\<close> and
  \<open>base/namespace/contents\<close>, which differ; when \<^verbatim>\<open>marquise_init\<close> answers NULL for
  want of resources, the binding raises \<^verbatim>\<open>RuntimeError\<close> with the \<^verbatim>\<open>errno\<close>
  (\<^verbatim>\<open>ValueError\<close> should that \<^verbatim>\<open>errno\<close> be \<^verbatim>\<open>EINVAL\<close>).
\<close>

theorem valid_namespace_opens:
  assumes "valid_namespace_str namespace"
    and "encode_utf8 base = Inr (spool_base lib)" and "0 \<notin> set base"
  shows "Marquise_init lib namespace dbg w =
     (case init_resources lib (calls w) (map of_nat namespace) of
        None \<Rightarrow>
          (Inr \<lparr>debug_enabled = dbg, namespace_c = map of_nat namespace @ [0],
                marquise_ctx = Some
                  \<lparr>ctx_spool_path_points =
                     build_spool_path (spool_base lib) (map of_nat namespace) Points @ [0],
                   ctx_spool_path_contents =
                     build_spool_path (spool_base lib) (map of_nat namespace) Contents @ [0]\<rparr>,
                spool_path_points =
                  base @ [0x2F] @ namespace @ [0x2F] @ map of_char ''points'',
                spool_path_contents =
                  base @ [0x2F] @ namespace @ [0x2F] @ map of_char ''contents''\<rparr>,
           native (Call_init (map of_nat namespace @ [0])) (ffi_errno w) w)
      | Some e \<Rightarrow>
          (if e = EINVAL then Inl (ValueError (Invalid_namespace namespace))
           else Inl (RuntimeError (Init_failed e)),
           native (Call_init (map of_nat namespace @ [0])) e w))
    \<and> base @ [0x2F] @ namespace @ [0x2F] @ map of_char ''points''
        \<noteq> base @ [0x2F] @ namespace @ [0x2F] @ map of_char ''contents''"
proof -
  from assms(1) have cp: "list_all namespace_cp namespace" and ne: "namespace \<noteq> []"
    by (simp_all add: valid_namespace_str_def)
  have enc: "cstring (PyStr namespace) = Inr (FFI_new_chars (map of_nat namespace))"
    by (simp add: cstring_def encode_utf8_ascii [OF cp])
  from namespace_bytes(1) [OF cp]
  have fs: "FFI_string (FFI_new_chars (map of_nat namespace)) = map of_nat namespace"
    by (intro FFI_string_zero_free) (simp add: list_all_iff)
  from namespace_bytes(2) [OF cp] ne
  have valid: "valid_namespace (map of_nat namespace)"
    by (simp add: valid_namespace_def)
  have pp: "cprint (FFI_new_chars (build_spool_path (spool_base lib) (map of_nat namespace) Points))
      = Inr (base @ [0x2F] @ namespace @ [0x2F] @ map of_char ''points'')"
    using cprint_spool_path_utf8 [OF assms(2,3) cp, of Points] by simp
  have pc: "cprint (FFI_new_chars (build_spool_path (spool_base lib) (map of_nat namespace) Contents))
      = Inr (base @ [0x2F] @ namespace @ [0x2F] @ map of_char ''contents'')"
    using cprint_spool_path_utf8 [OF assms(2,3) cp, of Contents] by simp
  have run: "Marquise_init lib namespace dbg w =
     (case init_resources lib (calls w) (map of_nat namespace) of
        None \<Rightarrow>
          (Inr \<lparr>debug_enabled = dbg, namespace_c = FFI_new_chars (map of_nat namespace),
                marquise_ctx = Some
                  \<lparr>ctx_spool_path_points =
                     FFI_new_chars (build_spool_path (spool_base lib) (map of_nat namespace) Points),
                   ctx_spool_path_contents =
                     FFI_new_chars (build_spool_path (spool_base lib) (map of_nat namespace) Contents)\<rparr>,
                spool_path_points =
                  base @ [0x2F] @ namespace @ [0x2F] @ map of_char ''points'',
                spool_path_contents =
                  base @ [0x2F] @ namespace @ [0x2F] @ map of_char ''contents''\<rparr>,
           native (Call_init (FFI_new_chars (map of_nat namespace))) (ffi_errno w) w)
      | Some e \<Rightarrow>
          (if e = EINVAL then Inl (ValueError (Invalid_namespace namespace))
           else Inl (RuntimeError (Init_failed e)),
           native (Call_init (FFI_new_chars (map of_nat namespace))) e w))"
    using pp pc
    by (cases "init_resources lib (calls w) (map of_nat namespace)")
      (simp_all add: Marquise_init_def enc marquise_init_def fs valid Let_def ffi_errno_native)
  from run [unfolded FFI_new_chars_def] show ?thesis
    by simp
qed

theorem valid_namespace_opens_witness:
  "valid_namespace_str [0x61, 0x62]
   \<and> encode_utf8 (map of_char ''/spool'') = Inr (spool_base lib_ok)
   \<and> 0 \<notin> set (map of_char ''/spool'' :: nat list)
   \<and> Marquise_init lib_ok [0x61, 0x62] True world0 =
       (Inr self0, world0\<lparr>calls := [Call_init [0x61, 0x62, 0]]\<rparr>)
   \<and> spool_path_points self0 \<noteq> spool_path_contents self0"
proof -
  have v: "valid_namespace_str [0x61, 0x62]"
    by (simp add: valid_namespace_str_def namespace_cp_def)
  have b: "encode_utf8 (map of_char ''/spool'') = Inr (spool_base lib_ok)"
    by (simp add: lib_ok_def utf8_char_def is_scalar_def)
  have z: "0 \<notin> set (map of_char ''/spool'' :: nat list)"
    by simp
  from valid_namespace_opens [OF v b z, of True world0] v b z show ?thesis
    by (simp add: lib_ok_def self0_def ctx0_def world0_def native_def build_spool_path_def)
qed

text \<open>
  C9 as stated fails: the namespace \<^verbatim>\<open>"ab"\<close> is valid, and when
  \<^verbatim>\<open>marquise_init\<close> finds no memory (NULL, \<^verbatim>\<open>errno\<close> 12) the binding raises
  \<^verbatim>\<open>RuntimeError\<close>.
\<close>

theorem valid_namespace_no_memory:
  "valid_namespace_str [0x61, 0x62]
   \<and> Marquise_init lib_no_memory [0x61, 0x62] False world0 =
       (Inl (RuntimeError (Init_failed 12)),
        world0\<lparr>calls := [Call_init [0x61, 0x62, 0]], ffi_errno := 12\<rparr>)"
  by (simp add: valid_namespace_str_def namespace_cp_def Marquise_init_def cstring_def
      FFI_new_chars_def utf8_char_def is_scalar_def marquise_init_def FFI_string_def
      valid_namespace_def namespace_char_def lib_ok_def lib_no_memory_def world0_def
      native_def Let_def EINVAL_def)

text \<open>
  The condition on the base directory is needed: \<^verbatim>\<open>cprint\<close> decodes the two paths
  as UTF-8, and with a base directory that is not UTF-8 the decoding error leaves
  \<^verbatim>\<open>__init__\<close> although the namespace is valid and the native context was created.
\<close>

lemma undecodable_spool_base:
  "valid_namespace_str [0x61, 0x62]
   \<and> Marquise_init (lib_ok\<lparr>spool_base := [0xFF]\<rparr>) [0x61, 0x62] False world0 =
       (Inl UnicodeDecodeError, world0\<lparr>calls := [Call_init [0x61, 0x62, 0]]\<rparr>)"
  by (simp add: valid_namespace_str_def namespace_cp_def Marquise_init_def cstring_def
      FFI_new_chars_def utf8_char_def is_scalar_def marquise_init_def FFI_string_def
      valid_namespace_def namespace_char_def lib_ok_def world0_def build_spool_path_def
      native_def cprint_def Let_def)

end
